theory Spec2Isabelle
  imports Main "HOL-Library.Sublist"
begin

section \<open>Python values\<close>

text \<open>
  A Python \<open>str\<close> is a sequence of Unicode code points, and \<open>len\<close> counts code points.
  A string is therefore a list of code points (natural numbers), not a list of bytes.
  \<open>lit\<close> embeds an ASCII literal of the source.
\<close>

type_synonym pystr = "nat list"

definition lit :: "string \<Rightarrow> pystr" where
  "lit s = map of_char s"

text \<open>
  \<open>str.isspace\<close> on one code point, as CPython decides it: the ASCII whitespace table
  (TAB..CR, FS..US, SPACE) and the Unicode white-space characters beyond ASCII.
\<close>

definition isspace :: "nat \<Rightarrow> bool" where
  "isspace c \<longleftrightarrow>
     (9 \<le> c \<and> c \<le> 13) \<or> (28 \<le> c \<and> c \<le> 32) \<or> c = 133 \<or> c = 160 \<or> c = 5760 \<or>
     (8192 \<le> c \<and> c \<le> 8202) \<or> c = 8232 \<or> c = 8233 \<or> c = 8239 \<or> c = 8287 \<or> c = 12288"

text \<open>\<open>s.strip()\<close>: leading and trailing whitespace removed.\<close>

definition strip :: "pystr \<Rightarrow> pystr" where
  "strip s = rev (dropWhile isspace (rev (dropWhile isspace s)))"

text \<open>\<open>s.startswith(p)\<close>.\<close>

definition startswith :: "pystr \<Rightarrow> pystr \<Rightarrow> bool" where
  "startswith s p = (take (length p) s = p)"

text \<open>
  \<open>s.replace(old, new)\<close> for a non-empty \<open>old\<close>: every occurrence, scanning from the
  left. The fuel is the number of characters still to scan.
\<close>

fun replace_from :: "nat \<Rightarrow> pystr \<Rightarrow> pystr \<Rightarrow> pystr \<Rightarrow> pystr" where
  "replace_from 0 old new s = s"
| "replace_from (Suc n) old new s =
     (case s of
        [] \<Rightarrow> []
      | c # cs \<Rightarrow>
          if startswith s old then new @ replace_from (n - (length old - 1)) old new (drop (length old) s)
          else c # replace_from n old new cs)"

definition replace :: "pystr \<Rightarrow> pystr \<Rightarrow> pystr \<Rightarrow> pystr" where
  "replace s old new = replace_from (length s) old new s"

text \<open>JSON values as \<open>json.loads\<close> returns them; an object keeps its keys in order.\<close>

datatype json =
    JNull
  | JBool bool
  | JNum int
  | JStr pystr
  | JArr "json list"
  | JObj "(pystr \<times> json) list"

text \<open>
  The exceptions the handlers meet. \<open>HTTPException\<close> carries status code, detail and
  headers. \<open>OtherException\<close> stands for every other subclass of \<open>Exception\<close>.
\<close>

datatype exn =
    HTTPException nat pystr "(pystr \<times> pystr) list"
  | CalledProcessError int pystr pystr
  | JSONDecodeError pystr
  | FileNotFoundError pystr
  | AttributeError
  | TypeError
  | IndexError
  | KeyError
  | UnicodeEncodeError
  | OtherException pystr

text \<open>Truth value of a JSON value in a Python condition (\<open>if not x\<close>).\<close>

fun truthy :: "json \<Rightarrow> bool" where
  "truthy JNull = False"
| "truthy (JBool b) = b"
| "truthy (JNum n) = (n \<noteq> 0)"
| "truthy (JStr s) = (s \<noteq> [])"
| "truthy (JArr xs) = (xs \<noteq> [])"
| "truthy (JObj kvs) = (kvs \<noteq> [])"

text \<open>\<open>x.get(k, d)\<close>: only a dict has the method.\<close>

fun py_get :: "json \<Rightarrow> pystr \<Rightarrow> json \<Rightarrow> exn + json" where
  "py_get (JObj kvs) k d = Inr (case map_of kvs k of Some v \<Rightarrow> v | None \<Rightarrow> d)"
| "py_get _ k d = Inl AttributeError"

text \<open>\<open>for x in v\<close>: the elements of a list, the keys of a dict, the characters of a string.\<close>

fun py_iter :: "json \<Rightarrow> exn + json list" where
  "py_iter (JArr xs) = Inr xs"
| "py_iter (JObj kvs) = Inr (map (\<lambda>kv. JStr (fst kv)) kvs)"
| "py_iter (JStr s) = Inr (map (\<lambda>c. JStr [c]) s)"
| "py_iter _ = Inl TypeError"

text \<open>\<open>len(v)\<close> and \<open>v[0]\<close>.\<close>

fun py_len :: "json \<Rightarrow> exn + nat" where
  "py_len (JArr xs) = Inr (length xs)"
| "py_len (JObj kvs) = Inr (length kvs)"
| "py_len (JStr s) = Inr (length s)"
| "py_len _ = Inl TypeError"

fun py_index0 :: "json \<Rightarrow> exn + json" where
  "py_index0 (JArr []) = Inl IndexError"
| "py_index0 (JArr (x # xs)) = Inr x"
| "py_index0 (JStr []) = Inl IndexError"
| "py_index0 (JStr (c # cs)) = Inr (JStr [c])"
| "py_index0 (JObj kvs) = Inl KeyError"
| "py_index0 _ = Inl TypeError"

section \<open>The outside world\<close>

text \<open>
  A backend call is either an HTTP request to the Podman API or a child process.
  The handlers keep a log of the calls made so far; the world answers a call as a
  function of that log, so a backend with state (a secret that exists after it was
  created) is covered.
\<close>

datatype http_request =
  Http_Request (http_method: pystr) (http_url: pystr)
    (http_params: "(pystr \<times> pystr) list") (http_json: "json option")

datatype proc_request =
  Proc_Request (proc_argv: "pystr list") (proc_stdin: "pystr option")

datatype call = Http http_request | Exec proc_request

text \<open>
  What \<open>client.request\<close> followed by \<open>raise_for_status\<close> does: a response that passes
  (its content), an \<open>HTTPStatusError\<close> (status code and text), or another exception.
\<close>

datatype http_outcome =
    Http_Response pystr
  | Http_Status_Error nat pystr
  | Http_Raised exn

text \<open>
  What running a child process does: it exits with a return code, standard output and
  standard error, or starting it raises (\<open>FileNotFoundError\<close> and others).
\<close>

datatype proc_outcome =
    Exited int pystr pystr
  | Proc_Raised exn

text \<open>
  The library functions are parameters of the world as well: \<open>json.loads\<close> (\<open>Inl m\<close>
  is a \<open>JSONDecodeError\<close> with message \<open>m\<close>),
  \<open>base64.b64encode(s.encode('utf-8')).decode('utf-8')\<close> (\<open>None\<close> is the
  \<open>UnicodeEncodeError\<close> that encoding a lone surrogate raises) and \<open>str(e)\<close> of an
  exception.
\<close>

record world =
  http_client :: "call list \<Rightarrow> http_request \<Rightarrow> http_outcome"
  subprocess :: "call list \<Rightarrow> proc_request \<Rightarrow> proc_outcome"
  json_loads :: "pystr \<Rightarrow> pystr + json"
  b64encode_utf8 :: "pystr \<Rightarrow> pystr option"
  str_exn :: "exn \<Rightarrow> pystr"

section \<open>Configuration (main.py, lines 31 to 41)\<close>

record config =
  PODMAN_HOST :: pystr
  PODMAN_CONNECTION :: pystr
  USE_HTTP_API :: bool
  PODMAN_API_URL :: "pystr option"

text \<open>\<open>os.getenv(k, d)\<close> on the process environment.\<close>

definition getenv :: "(pystr \<rightharpoonup> pystr) \<Rightarrow> pystr \<Rightarrow> pystr \<Rightarrow> pystr" where
  "getenv environ k d = (case environ k of Some v \<Rightarrow> v | None \<Rightarrow> d)"

text \<open>The module-level assignments, run once when the module is loaded.\<close>

definition load_config :: "(pystr \<rightharpoonup> pystr) \<Rightarrow> config" where
  "load_config environ =
     (let host = getenv environ (lit ''PODMAN_HOST'') [];
          conn = getenv environ (lit ''PODMAN_CONNECTION'') (lit ''my-tcp'');
          use_http = (host \<noteq> [] \<and> startswith host (lit ''tcp://''))
      in \<lparr> PODMAN_HOST = host,
           PODMAN_CONNECTION = conn,
           USE_HTTP_API = use_http,
           PODMAN_API_URL =
             (if use_http then Some (replace host (lit ''tcp://'') (lit ''http://'')) else None) \<rparr>)"

section \<open>Requests and responses\<close>

datatype SecretCreate =
  SecretCreate (name: pystr) (data: pystr) (driver: "pystr option")

text \<open>A handler returns a status code (the one of its route) and a JSON body, or raises.\<close>

datatype response = Response (status_code: nat) (body: json)

type_synonym 'a result = "exn + 'a"

section \<open>Transport (main.py, lines 87 to 158)\<close>

text \<open>\<open>f"{PODMAN_API_URL}"\<close>: \<open>None\<close> prints as \<open>None\<close>.\<close>

definition api_url_text :: "config \<Rightarrow> pystr" where
  "api_url_text cfg = (case PODMAN_API_URL cfg of None \<Rightarrow> lit ''None'' | Some u \<Rightarrow> u)"

definition http_api_request ::
  "config \<Rightarrow> world \<Rightarrow> call list \<Rightarrow> pystr \<Rightarrow> pystr \<Rightarrow> (pystr \<times> pystr) list \<Rightarrow> json option
     \<Rightarrow> json result \<times> call list" where
  "http_api_request cfg w log method endpoint params js =
     (let url = api_url_text cfg @ lit ''/v4.0.0/libpod'' @ endpoint;
          req = Http_Request method url params js
      in ((case http_client w log req of
             Http_Response content \<Rightarrow>
               (if content \<noteq> [] then
                  (case json_loads w content of
                     Inr j \<Rightarrow> Inr j
                   | Inl m \<Rightarrow>
                       Inl (HTTPException 500
                              (lit ''Failed to connect to Podman API: ''
                                 @ str_exn w (JSONDecodeError m)) []))
                else Inr (JObj []))
           | Http_Status_Error code text \<Rightarrow>
               Inl (HTTPException code (lit ''Podman API error: '' @ text) [])
           | Http_Raised e \<Rightarrow>
               Inl (HTTPException 500
                      (lit ''Failed to connect to Podman API: '' @ str_exn w e) [])),
          log @ [Http req]))"

text \<open>The command line every child process starts with.\<close>

definition podman_cmd :: "config \<Rightarrow> pystr list" where
  "podman_cmd cfg =
     [lit ''podman''] @
     (if PODMAN_HOST cfg \<noteq> [] then [lit ''--host'', PODMAN_HOST cfg]
      else if PODMAN_CONNECTION cfg \<noteq> [] then [lit ''--connection'', PODMAN_CONNECTION cfg]
      else [])"

text \<open>\<open>subprocess.run(cmd, capture_output=True, text=True, check=True)\<close>.\<close>

definition subprocess_run :: "world \<Rightarrow> call list \<Rightarrow> proc_request \<Rightarrow> (pystr \<times> pystr) result" where
  "subprocess_run w log req =
     (case subprocess w log req of
        Exited rc out err \<Rightarrow>
          if rc \<noteq> 0 then Inl (CalledProcessError rc out err) else Inr (out, err)
      | Proc_Raised e \<Rightarrow> Inl e)"

text \<open>The \<open>except\<close> clauses of \<open>run_podman_command\<close>; any other exception passes through.\<close>

fun run_podman_except :: "exn \<Rightarrow> exn" where
  "run_podman_except (CalledProcessError rc out err) =
     HTTPException 500 (lit ''Podman error: '' @ err) []"
| "run_podman_except (JSONDecodeError m) =
     HTTPException 500 (lit ''Failed to parse Podman output'') []"
| "run_podman_except (FileNotFoundError m) =
     HTTPException 500 (lit ''Podman is not installed or not in PATH'') []"
| "run_podman_except e = e"

definition run_podman_command ::
  "config \<Rightarrow> world \<Rightarrow> call list \<Rightarrow> pystr list \<Rightarrow> json result \<times> call list" where
  "run_podman_command cfg w log args =
     (let req = Proc_Request (podman_cmd cfg @ args) None
      in ((case subprocess_run w log req of
             Inl e \<Rightarrow> Inl (run_podman_except e)
           | Inr (out, err) \<Rightarrow>
               if strip out \<noteq> [] then
                 (case json_loads w out of
                    Inr j \<Rightarrow> Inr j
                  | Inl m \<Rightarrow> Inl (run_podman_except (JSONDecodeError m)))
               else Inr (JObj [])),
          log @ [Exec req]))"

section \<open>Creating a secret (main.py, lines 245 to 325)\<close>

text \<open>\<open>any(char in secret_name for char in ['=', '/', ',', '\0'])\<close>.\<close>

definition forbidden_chars :: "nat list" where
  "forbidden_chars = [61, 47, 44, 0]"

definition has_forbidden :: "pystr \<Rightarrow> bool" where
  "has_forbidden secret_name = list_ex (\<lambda>char. char \<in> set secret_name) forbidden_chars"

text \<open>\<open>secret.name.strip() if secret.name else ""\<close>.\<close>

definition stripped_name :: "SecretCreate \<Rightarrow> pystr" where
  "stripped_name secret = (if name secret \<noteq> [] then strip (name secret) else [])"

text \<open>\<open>not secret_name or len(secret_name) < 1 or len(secret_name) > 253\<close>.\<close>

definition bad_length :: "pystr \<Rightarrow> bool" where
  "bad_length secret_name \<longleftrightarrow>
     secret_name = [] \<or> length secret_name < 1 \<or> length secret_name > 253"

text \<open>The last two \<open>except\<close> clauses of \<open>create_secret\<close> and \<open>inspect_secret\<close>.\<close>

fun reraise_or_500 :: "world \<Rightarrow> exn \<Rightarrow> exn" where
  "reraise_or_500 w (HTTPException code detail hs) = HTTPException code detail hs"
| "reraise_or_500 w e = HTTPException 500 (str_exn w e) []"

definition driver_json :: "pystr option \<Rightarrow> json" where
  "driver_json d = (case d of None \<Rightarrow> JNull | Some s \<Rightarrow> JStr s)"

definition create_body :: "pystr \<Rightarrow> SecretCreate \<Rightarrow> json" where
  "create_body encoded_data secret =
     JObj [(lit ''data'', JStr encoded_data),
           (lit ''driver'', JObj [(lit ''name'', driver_json (driver secret))])]"

definition create_cmd :: "config \<Rightarrow> pystr \<Rightarrow> pystr list" where
  "create_cmd cfg secret_name =
     podman_cmd cfg @ [lit ''secret'', lit ''create'', secret_name, lit ''-'']"

definition created :: "json \<Rightarrow> pystr \<Rightarrow> response" where
  "created secret_id secret_name =
     Response 201
       (JObj [(lit ''id'', secret_id), (lit ''name'', JStr secret_name),
              (lit ''message'', JStr (lit ''Secret created successfully''))])"

definition create_secret ::
  "config \<Rightarrow> world \<Rightarrow> call list \<Rightarrow> SecretCreate \<Rightarrow> response result \<times> call list" where
  "create_secret cfg w log secret =
     (let secret_name = stripped_name secret in
      if bad_length secret_name then
        (Inl (HTTPException 400 (lit ''Secret name must be between 1 and 253 characters'') []),
         log)
      else if has_forbidden secret_name then
        (Inl (HTTPException 400
               (lit ''Secret name cannot contain '' @ [39, 61, 39] @ lit '', '' @ [39, 47, 39]
                  @ lit '', '' @ [39, 44, 39] @ lit '' or NULL characters'') []),
         log)
      else if USE_HTTP_API cfg then
        (case b64encode_utf8 w (data secret) of
           None \<Rightarrow> (Inl (reraise_or_500 w UnicodeEncodeError), log)
         | Some encoded_data \<Rightarrow>
             (case http_api_request cfg w log (lit ''POST'') (lit ''/secrets/create'')
                     [(lit ''name'', secret_name)] (Some (create_body encoded_data secret)) of
                (Inl e, log') \<Rightarrow> (Inl (reraise_or_500 w e), log')
              | (Inr result, log') \<Rightarrow>
                  (case py_get result (lit ''ID'') (JStr []) of
                     Inl e \<Rightarrow> (Inl (reraise_or_500 w e), log')
                   | Inr secret_id \<Rightarrow> (Inr (created secret_id secret_name), log'))))
      else
        (let req = Proc_Request (create_cmd cfg secret_name) (Some (data secret))
         in (case subprocess w log req of
               Proc_Raised e \<Rightarrow> (Inl (reraise_or_500 w e), log @ [Exec req])
             | Exited rc out err \<Rightarrow>
                 if rc \<noteq> 0 then
                   (Inl (HTTPException 400 (lit ''Failed to create secret: '' @ err) []),
                    log @ [Exec req])
                 else (Inr (created (JStr (strip out)) secret_name), log @ [Exec req]))))"

section \<open>Creating secrets in bulk (main.py, lines 328 to 374)\<close>

datatype BulkSecretCreate = BulkSecretCreate (bulk_secrets: "SecretCreate list")

text \<open>The \<open>results\<close> dictionary of the loop, with the log of backend calls beside it.\<close>

record bulk_state =
  success :: "json list"
  failed :: "json list"
  calls :: "call list"

definition failed_entry :: "pystr \<Rightarrow> pystr \<Rightarrow> json" where
  "failed_entry n e = JObj [(lit ''name'', JStr n), (lit ''error'', JStr e)]"

definition success_entry :: "json \<Rightarrow> pystr \<Rightarrow> json" where
  "success_entry secret_id n = JObj [(lit ''id'', secret_id), (lit ''name'', JStr n)]"

definition add_failed :: "bulk_state \<Rightarrow> call list \<Rightarrow> json \<Rightarrow> bulk_state" where
  "add_failed st log' entry = st\<lparr>failed := failed st @ [entry], calls := log'\<rparr>"

definition add_success :: "bulk_state \<Rightarrow> call list \<Rightarrow> json \<Rightarrow> bulk_state" where
  "add_success st log' entry = st\<lparr>success := success st @ [entry], calls := log'\<rparr>"

text \<open>One turn of the loop: the \<open>try\<close> block and its \<open>except Exception\<close>.\<close>

definition bulk_step :: "config \<Rightarrow> world \<Rightarrow> bulk_state \<Rightarrow> SecretCreate \<Rightarrow> bulk_state" where
  "bulk_step cfg w st secret =
     (let secret_name = stripped_name secret; log = calls st in
      if bad_length secret_name then
        add_failed st log (failed_entry (name secret) (lit ''Name must be 1-253 characters''))
      else if has_forbidden secret_name then
        add_failed st log (failed_entry (name secret) (lit ''Invalid characters in name''))
      else if USE_HTTP_API cfg then
        (case b64encode_utf8 w (data secret) of
           None \<Rightarrow>
             add_failed st log (failed_entry (name secret) (str_exn w UnicodeEncodeError))
         | Some encoded_data \<Rightarrow>
             (case http_api_request cfg w log (lit ''POST'') (lit ''/secrets/create'')
                     [(lit ''name'', secret_name)] (Some (create_body encoded_data secret)) of
                (Inl e, log') \<Rightarrow>
                  add_failed st log' (failed_entry (name secret) (str_exn w e))
              | (Inr result, log') \<Rightarrow>
                  (case py_get result (lit ''ID'') (JStr []) of
                     Inl e \<Rightarrow> add_failed st log' (failed_entry (name secret) (str_exn w e))
                   | Inr secret_id \<Rightarrow>
                       add_success st log' (success_entry secret_id secret_name))))
      else
        (let req = Proc_Request (create_cmd cfg secret_name) (Some (data secret))
         in (case subprocess w log req of
               Proc_Raised e \<Rightarrow>
                 add_failed st (log @ [Exec req]) (failed_entry (name secret) (str_exn w e))
             | Exited rc out err \<Rightarrow>
                 if rc \<noteq> 0 then
                   add_failed st (log @ [Exec req]) (failed_entry secret_name err)
                 else
                   add_success st (log @ [Exec req])
                     (success_entry (JStr (strip out)) secret_name))))"

fun bulk_loop :: "config \<Rightarrow> world \<Rightarrow> bulk_state \<Rightarrow> SecretCreate list \<Rightarrow> bulk_state" where
  "bulk_loop cfg w st [] = st"
| "bulk_loop cfg w st (secret # rest) = bulk_loop cfg w (bulk_step cfg w st secret) rest"

definition bulk_results :: "config \<Rightarrow> world \<Rightarrow> call list \<Rightarrow> BulkSecretCreate \<Rightarrow> bulk_state" where
  "bulk_results cfg w log bulk =
     bulk_loop cfg w \<lparr>success = [], failed = [], calls = log\<rparr> (bulk_secrets bulk)"

definition create_bulk_secrets ::
  "config \<Rightarrow> world \<Rightarrow> call list \<Rightarrow> BulkSecretCreate \<Rightarrow> response result \<times> call list" where
  "create_bulk_secrets cfg w log bulk =
     (let results = bulk_results cfg w log bulk
      in (Inr (Response 201
                 (JObj [(lit ''success'', JArr (success results)),
                        (lit ''failed'', JArr (failed results))])),
          calls results))"

section \<open>Listing and inspecting (main.py, lines 216 to 242 and 377 to 412)\<close>

text \<open>Sequencing of steps that may raise.\<close>

definition and_then :: "'a result \<Rightarrow> ('a \<Rightarrow> 'b result) \<Rightarrow> 'b result" where
  "and_then r f = (case r of Inl e \<Rightarrow> Inl e | Inr x \<Rightarrow> f x)"

text \<open>
  The five fields both handlers build from a secret of the remote API, in the order the
  dictionary display evaluates them.
\<close>

definition flat_fields :: "json \<Rightarrow> (pystr \<times> json) list result" where
  "flat_fields secret =
     and_then (py_get secret (lit ''ID'') (JStr [])) (\<lambda>ident.
     and_then (py_get secret (lit ''Spec'') (JObj [])) (\<lambda>spec.
     and_then (py_get spec (lit ''Name'') (JStr [])) (\<lambda>nm.
     and_then (py_get secret (lit ''Spec'') (JObj [])) (\<lambda>spec'.
     and_then (py_get spec' (lit ''Driver'') (JObj [])) (\<lambda>drv.
     and_then (py_get drv (lit ''Name'') (JStr (lit ''file''))) (\<lambda>drv_name.
     and_then (py_get secret (lit ''CreatedAt'') (JStr [])) (\<lambda>created_at.
     and_then (py_get secret (lit ''UpdatedAt'') (JStr [])) (\<lambda>updated_at.
       Inr [(lit ''ID'', ident), (lit ''Name'', nm), (lit ''Driver'', drv_name),
            (lit ''CreatedAt'', created_at), (lit ''UpdatedAt'', updated_at)]))))))))"

text \<open>The loop of \<open>list_secrets\<close> that fills \<open>transformed\<close>.\<close>

fun transform_all :: "json list \<Rightarrow> json list result" where
  "transform_all [] = Inr []"
| "transform_all (secret # rest) =
     and_then (flat_fields secret) (\<lambda>fields.
     and_then (transform_all rest) (\<lambda>transformed. Inr (JObj fields # transformed)))"

definition list_secrets ::
  "config \<Rightarrow> world \<Rightarrow> call list \<Rightarrow> response result \<times> call list" where
  "list_secrets cfg w log =
     (if USE_HTTP_API cfg then
        (case http_api_request cfg w log (lit ''GET'') (lit ''/secrets/json'') [] None of
           (Inl e, log') \<Rightarrow> (Inl e, log')
         | (Inr secrets, log') \<Rightarrow>
             if \<not> truthy secrets then (Inr (Response 200 (JArr [])), log')
             else
               (and_then (py_iter secrets) (\<lambda>items.
                and_then (transform_all items) (\<lambda>transformed.
                  Inr (Response 200 (JArr transformed)))),
                log'))
      else
        (case run_podman_command cfg w log
                [lit ''secret'', lit ''ls'', lit ''--format'', lit ''json''] of
           (Inl e, log') \<Rightarrow> (Inl e, log')
         | (Inr secrets, log') \<Rightarrow>
             if \<not> truthy secrets then (Inr (Response 200 (JArr [])), log')
             else (Inr (Response 200 secrets), log')))"

definition not_found :: "pystr \<Rightarrow> exn" where
  "not_found secret_id =
     HTTPException 404 (lit ''Secret '' @ [39] @ secret_id @ [39] @ lit '' not found'') []"

definition inspect_secret ::
  "config \<Rightarrow> world \<Rightarrow> call list \<Rightarrow> pystr \<Rightarrow> response result \<times> call list" where
  "inspect_secret cfg w log secret_id =
     (if USE_HTTP_API cfg then
        (case http_api_request cfg w log (lit ''GET'')
                (lit ''/secrets/'' @ secret_id @ lit ''/json'') [] None of
           (Inl e, log') \<Rightarrow> (Inl (reraise_or_500 w e), log')
         | (Inr result, log') \<Rightarrow>
             if \<not> truthy result then (Inl (not_found secret_id), log')
             else
               (case and_then (flat_fields result) (\<lambda>fields.
                     and_then (py_get result (lit ''Spec'') (JObj [])) (\<lambda>spec.
                       Inr (Response 200 (JObj (fields @ [(lit ''Spec'', spec)]))))) of
                  Inl e \<Rightarrow> (Inl (reraise_or_500 w e), log')
                | Inr r \<Rightarrow> (Inr r, log')))
      else
        (case run_podman_command cfg w log [lit ''secret'', lit ''inspect'', secret_id] of
           (Inl e, log') \<Rightarrow> (Inl (reraise_or_500 w e), log')
         | (Inr result, log') \<Rightarrow>
             if \<not> truthy result then (Inl (not_found secret_id), log')
             else
               (case and_then (py_len result) (\<lambda>n.
                     if n = 0 then Inl (not_found secret_id)
                     else and_then (py_index0 result) (\<lambda>first. Inr (Response 200 first))) of
                  Inl e \<Rightarrow> (Inl (reraise_or_500 w e), log')
                | Inr r \<Rightarrow> (Inr r, log'))))"

section \<open>Deleting a secret (main.py, lines 415 to 455)\<close>

text \<open>The three \<open>except\<close> clauses of \<open>delete_secret\<close>, in their order.\<close>

fun delete_except :: "world \<Rightarrow> exn \<Rightarrow> exn" where
  "delete_except w (CalledProcessError rc out err) =
     HTTPException 400 (lit ''Failed to delete secret: '' @ err) []"
| "delete_except w (HTTPException code detail hs) = HTTPException code detail hs"
| "delete_except w e = HTTPException 500 (str_exn w e) []"

definition deleted :: "pystr \<Rightarrow> response" where
  "deleted secret_id =
     Response 200
       (JObj [(lit ''message'',
               JStr (lit ''Secret '' @ [39] @ secret_id @ [39] @ lit '' deleted successfully''))])"

definition delete_secret ::
  "config \<Rightarrow> world \<Rightarrow> call list \<Rightarrow> pystr \<Rightarrow> response result \<times> call list" where
  "delete_secret cfg w log secret_id =
     (if USE_HTTP_API cfg then
        (case http_api_request cfg w log (lit ''DELETE'') (lit ''/secrets/'' @ secret_id) [] None of
           (Inl e, log') \<Rightarrow> (Inl (delete_except w e), log')
         | (Inr result, log') \<Rightarrow> (Inr (deleted secret_id), log'))
      else
        (let req = Proc_Request (podman_cmd cfg @ [lit ''secret'', lit ''rm'', secret_id]) None
         in (case subprocess_run w log req of
               Inl e \<Rightarrow> (Inl (delete_except w e), log @ [Exec req])
             | Inr (out, err) \<Rightarrow> (Inr (deleted secret_id), log @ [Exec req]))))"

section \<open>Health check (main.py, lines 458 to 502)\<close>

text \<open>\<open>x or "default"\<close>.\<close>

definition or_default :: "pystr \<Rightarrow> pystr" where
  "or_default s = (if s \<noteq> [] then s else lit ''default'')"

definition healthy :: "config \<Rightarrow> json \<Rightarrow> pystr \<Rightarrow> response" where
  "healthy cfg version mode =
     Response 200
       (JObj [(lit ''podman_available'', JBool True),
              (lit ''version'', version),
              (lit ''host'', JStr (or_default (PODMAN_HOST cfg))),
              (lit ''connection'', JStr (or_default (PODMAN_CONNECTION cfg))),
              (lit ''mode'', JStr mode)])"

definition unhealthy :: "world \<Rightarrow> exn \<Rightarrow> response" where
  "unhealthy w e =
     Response 200
       (JObj [(lit ''podman_available'', JBool False), (lit ''error'', JStr (str_exn w e))])"

definition health_check ::
  "config \<Rightarrow> world \<Rightarrow> call list \<Rightarrow> response result \<times> call list" where
  "health_check cfg w log =
     (if USE_HTTP_API cfg then
        (case http_api_request cfg w log (lit ''GET'') (lit ''/version'') [] None of
           (Inl e, log') \<Rightarrow> (Inr (unhealthy w e), log')
         | (Inr version_info, log') \<Rightarrow>
             (case py_get version_info (lit ''Version'') (JStr (lit ''unknown'')) of
                Inl e \<Rightarrow> (Inr (unhealthy w e), log')
              | Inr version \<Rightarrow> (Inr (healthy cfg version (lit ''HTTP API'')), log')))
      else
        (let req = Proc_Request
                     (podman_cmd cfg @ [lit ''version'', lit ''--format'', lit ''json'']) None
         in (case subprocess_run w log req of
               Inl e \<Rightarrow> (Inr (unhealthy w e), log @ [Exec req])
             | Inr (out, err) \<Rightarrow>
                 (case json_loads w out of
                    Inl m \<Rightarrow> (Inr (unhealthy w (JSONDecodeError m)), log @ [Exec req])
                  | Inr version_info \<Rightarrow>
                      (case and_then (py_get version_info (lit ''Client'') (JObj [])) (\<lambda>client.
                              py_get client (lit ''Version'') (JStr (lit ''unknown''))) of
                         Inl e \<Rightarrow> (Inr (unhealthy w e), log @ [Exec req])
                       | Inr version \<Rightarrow>
                           (Inr (healthy cfg version (lit ''CLI'')), log @ [Exec req]))))))"

section \<open>Authentication (main.py, lines 169 to 211; database.py, lines 14 to 21)\<close>

text \<open>A row of the table \<open>users\<close>; timestamps are points on the clock.\<close>

datatype User =
  User (user_id: nat) (username: pystr) (hashed_password: pystr)
    (created_at: nat) (updated_at: nat)

type_synonym db = "User list"

text \<open>
  The module \<open>auth\<close> is imported by main.py and is not among the sources. What the two
  handlers call from it is a parameter: the password check, the password hash (salted,
  so any function of the plaintext), the token constructor with its lifetime in minutes,
  and the clock that \<open>onupdate\<close> reads.
\<close>

record auth =
  verify_password :: "pystr \<Rightarrow> pystr \<Rightarrow> bool"
  get_password_hash :: "pystr \<Rightarrow> pystr"
  create_access_token :: "(pystr \<times> pystr) list \<Rightarrow> nat \<Rightarrow> pystr"
  ACCESS_TOKEN_EXPIRE_MINUTES :: nat
  utcnow :: nat

text \<open>
  Modelled from the spec: \<open>authenticate_user\<close> of the module \<open>auth\<close>, which is missing.
  The spec (4.1): it looks the user up by exact username match and fails if the user is
  absent or the password does not verify against the stored hash.
\<close>

definition authenticate_user :: "auth \<Rightarrow> db \<Rightarrow> pystr \<Rightarrow> pystr \<Rightarrow> User option" where
  "authenticate_user a users uname plain =
     (case find (\<lambda>u. username u = uname) users of
        None \<Rightarrow> None
      | Some u \<Rightarrow> if verify_password a plain (hashed_password u) then Some u else None)"

datatype UserLogin = UserLogin (login_username: pystr) (login_password: pystr)

definition unauthorized :: exn where
  "unauthorized =
     HTTPException 401 (lit ''Incorrect username or password'')
       [(lit ''WWW-Authenticate'', lit ''Bearer'')]"

definition login :: "auth \<Rightarrow> db \<Rightarrow> UserLogin \<Rightarrow> response result" where
  "login a users user_login =
     (case authenticate_user a users (login_username user_login) (login_password user_login) of
        None \<Rightarrow> Inl unauthorized
      | Some user \<Rightarrow>
          (let access_token =
                 create_access_token a [(lit ''sub'', username user)]
                   (ACCESS_TOKEN_EXPIRE_MINUTES a)
           in Inr (Response 200
                     (JObj [(lit ''access_token'', JStr access_token),
                            (lit ''token_type'', JStr (lit ''bearer''))]))))"

datatype PasswordChange = PasswordChange (current_password: pystr) (new_password: pystr)

text \<open>
  \<open>db.commit()\<close> after the assignment to \<open>current_user.hashed_password\<close>: the row with
  the primary key of \<open>current_user\<close> gets the new hash, and \<open>onupdate\<close> sets its
  \<open>updated_at\<close>.
\<close>

definition commit_password :: "auth \<Rightarrow> User \<Rightarrow> pystr \<Rightarrow> db \<Rightarrow> db" where
  "commit_password a current_user h users =
     map (\<lambda>row. if user_id row = user_id current_user
                 then User (user_id row) (username row) h (created_at row) (utcnow a)
                 else row) users"

definition change_password ::
  "auth \<Rightarrow> PasswordChange \<Rightarrow> User \<Rightarrow> db \<Rightarrow> response result \<times> db" where
  "change_password a password_change current_user users =
     (if \<not> verify_password a (current_password password_change) (hashed_password current_user)
      then (Inl (HTTPException 400 (lit ''Current password is incorrect'') []), users)
      else (Inr (Response 200
                   (JObj [(lit ''message'', JStr (lit ''Password changed successfully''))])),
            commit_password a current_user
              (get_password_hash a (new_password password_change)) users))"

text \<open>The hash the table holds for a primary key.\<close>

definition stored_hash :: "db \<Rightarrow> nat \<Rightarrow> pystr option" where
  "stored_hash users uid = map_option hashed_password (find (\<lambda>row. user_id row = uid) users)"

section \<open>Predicates of the properties\<close>





text \<open>The backend a call goes to.\<close>

fun is_http :: "call \<Rightarrow> bool" where
  "is_http (Http req) = True"
| "is_http (Exec req) = False"

text \<open>
  The log \<open>log'\<close> extends \<open>log\<close>, and every call added goes to the backend that
  \<open>USE_HTTP_API\<close> names.
\<close>

definition on_selected_backend :: "config \<Rightarrow> call list \<Rightarrow> call list \<Rightarrow> bool" where
  "on_selected_backend cfg log log' \<longleftrightarrow>
     take (length log) log' = log \<and>
     list_all (\<lambda>c. is_http c = USE_HTTP_API cfg) (drop (length log) log')"

text \<open>
  The data of one secret that both backends report (spec, section 3): id, name, driver
  and the two timestamps.
\<close>

datatype secret_info =
  Secret_Info (info_id: pystr) (info_name: pystr) (info_driver: pystr)
    (info_created: pystr) (info_updated: pystr)

text \<open>
  The canonical shape in the spec's words (section 4.2): the fields ID, Name, Driver,
  CreatedAt and UpdatedAt, flat and in this order.
\<close>

definition canonical_fields :: "secret_info \<Rightarrow> (pystr \<times> json) list" where
  "canonical_fields s =
     [(lit ''ID'', JStr (info_id s)), (lit ''Name'', JStr (info_name s)),
      (lit ''Driver'', JStr (info_driver s)), (lit ''CreatedAt'', JStr (info_created s)),
      (lit ''UpdatedAt'', JStr (info_updated s))]"

text \<open>An element of the canonical list response.\<close>

definition canonical_summary :: "secret_info \<Rightarrow> json" where
  "canonical_summary s = JObj (canonical_fields s)"

text \<open>The canonical inspect response: the same fields plus the nested detail object.\<close>

definition canonical_detail :: "secret_info \<Rightarrow> json \<Rightarrow> json" where
  "canonical_detail s spec = JObj (canonical_fields s @ [(lit ''Spec'', spec)])"

text \<open>
  The raw schema of the remote API in the spec's words: ID and the timestamps at the top,
  Name and the Driver's Name nested inside the \<open>Spec\<close> object. Other keys may be present,
  in any order.
\<close>

definition remote_shape :: "json \<Rightarrow> secret_info \<Rightarrow> bool" where
  "remote_shape j s \<longleftrightarrow>
     py_get j (lit ''ID'') JNull = Inr (JStr (info_id s)) \<and>
     and_then (py_get j (lit ''Spec'') JNull) (\<lambda>spec. py_get spec (lit ''Name'') JNull) =
       Inr (JStr (info_name s)) \<and>
     and_then (py_get j (lit ''Spec'') JNull) (\<lambda>spec.
       and_then (py_get spec (lit ''Driver'') JNull) (\<lambda>drv. py_get drv (lit ''Name'') JNull)) =
       Inr (JStr (info_driver s)) \<and>
     py_get j (lit ''CreatedAt'') JNull = Inr (JStr (info_created s)) \<and>
     py_get j (lit ''UpdatedAt'') JNull = Inr (JStr (info_updated s))"

section \<open>Sample configurations and worlds\<close>

text \<open>The configuration of a process started without and with a remote host.\<close>

definition cli_config :: config where
  "cli_config = load_config Map.empty"

definition http_config :: config where
  "http_config = load_config [lit ''PODMAN_HOST'' \<mapsto> lit ''tcp://h:1'']"

text \<open>A world where every call succeeds, and one where nothing works.\<close>

definition ok_world :: world where
  "ok_world =
     \<lparr> http_client = (\<lambda>log req. Http_Response (lit ''r'')),
       subprocess = (\<lambda>log req. Exited 0 (lit ''abc'') []),
       json_loads = (\<lambda>s. Inr (JObj [(lit ''ID'', JStr (lit ''abc''))])),
       b64encode_utf8 = (\<lambda>s. Some s),
       str_exn = (\<lambda>e. lit ''error'') \<rparr>"

definition down_world :: world where
  "down_world =
     \<lparr> http_client = (\<lambda>log req. Http_Status_Error 404 (lit ''no such secret'')),
       subprocess = (\<lambda>log req. Exited 125 [] (lit ''no such secret'')),
       json_loads = (\<lambda>s. Inl (lit ''bad'')),
       b64encode_utf8 = (\<lambda>s. Some s),
       str_exn = (\<lambda>e. lit ''error'') \<rparr>"

text \<open>
  A stand-in for the module \<open>auth\<close>: the hash of \<open>p\<close> is \<open>h:p\<close>, and a token quotes its
  subject.
\<close>

definition sample_auth :: auth where
  "sample_auth =
     \<lparr> verify_password = (\<lambda>plain h. h = lit ''h:'' @ plain),
       get_password_hash = (\<lambda>plain. lit ''h:'' @ plain),
       create_access_token = (\<lambda>claims minutes. lit ''token'' @ concat (map snd claims)),
       ACCESS_TOKEN_EXPIRE_MINUTES = 30,
       utcnow = 7 \<rparr>"

text \<open>A table of two users.\<close>

definition sample_users :: db where
  "sample_users = [User 1 (lit ''admin'') (lit ''h:admin'') 0 0, User 2 (lit ''bob'') (lit ''h:pw'') 0 0]"

text \<open>A world where every call succeeds and the output parses to the given JSON value.\<close>

definition answering :: "json \<Rightarrow> world" where
  "answering j =
     \<lparr> http_client = (\<lambda>log req. Http_Response (lit ''r'')),
       subprocess = (\<lambda>log req. Exited 0 (lit ''r'') []),
       json_loads = (\<lambda>s. Inr j),
       b64encode_utf8 = (\<lambda>s. Some s),
       str_exn = (\<lambda>e. lit ''error'') \<rparr>"

text \<open>A secret as the remote API reports it, with its \<open>Spec\<close> object, and its data.\<close>

definition sample_spec :: json where
  "sample_spec =
     JObj [(lit ''Name'', JStr (lit ''db'')),
           (lit ''Driver'', JObj [(lit ''Name'', JStr (lit ''file''))])]"

text \<open>The remote report of the sample secret.\<close>

definition sample_remote :: json where
  "sample_remote =
     JObj [(lit ''ID'', JStr (lit ''1f'')), (lit ''Spec'', sample_spec),
           (lit ''CreatedAt'', JStr (lit ''t0'')), (lit ''UpdatedAt'', JStr (lit ''t1''))]"

text \<open>The data of the sample secret.\<close>

definition sample_info :: secret_info where
  "sample_info = Secret_Info (lit ''1f'') (lit ''db'') (lit ''file'') (lit ''t0'') (lit ''t1'')"

section \<open>Strings and validation\<close>

lemma lit_eq_iff [simp]: "lit a = lit b \<longleftrightarrow> a = b"
  by (simp add: lit_def inj_map_eq_map inj_of_char)

lemma lit_Nil_iff [simp]: "lit a = [] \<longleftrightarrow> a = []" "[] = lit a \<longleftrightarrow> a = []"
  by (auto simp add: lit_def)

lemma strip_Nil [simp]: "strip [] = []"
  by (simp add: strip_def)

lemma stripped_name_eq: "stripped_name secret = strip (name secret)"
  by (simp add: stripped_name_def)

lemma bad_length_iff: "bad_length s \<longleftrightarrow> s = [] \<or> 253 < length s"
  by (auto simp add: bad_length_def)

lemma has_forbidden_iff:
  "has_forbidden s \<longleftrightarrow> 61 \<in> set s \<or> 47 \<in> set s \<or> 44 \<in> set s \<or> 0 \<in> set s"
  by (simp add: has_forbidden_def forbidden_chars_def)

lemma http_api_request_log:
  "snd (http_api_request cfg w log m ep ps js) =
     log @ [Http (Http_Request m (api_url_text cfg @ lit ''/v4.0.0/libpod'' @ ep) ps js)]"
  by (simp add: http_api_request_def Let_def)

lemma create_secret_rejected:
  "bad_length (strip (name secret)) \<or> has_forbidden (strip (name secret)) \<Longrightarrow>
   \<exists>detail. create_secret cfg w log secret = (Inl (HTTPException 400 detail []), log)"
  by (auto simp add: create_secret_def stripped_name_eq Let_def)

lemma create_secret_cli_log:
  "\<not> bad_length (strip (name secret)) \<Longrightarrow> \<not> has_forbidden (strip (name secret)) \<Longrightarrow>
   \<not> USE_HTTP_API cfg \<Longrightarrow>
   snd (create_secret cfg w log secret) =
     log @ [Exec (Proc_Request (create_cmd cfg (strip (name secret))) (Some (data secret)))]"
  by (auto simp add: create_secret_def stripped_name_eq Let_def split: proc_outcome.splits)

lemma create_secret_http_log:
  "\<not> bad_length (strip (name secret)) \<Longrightarrow> \<not> has_forbidden (strip (name secret)) \<Longrightarrow>
   USE_HTTP_API cfg \<Longrightarrow> b64encode_utf8 w (data secret) = Some enc \<Longrightarrow>
   snd (create_secret cfg w log secret) =
     log @ [Http (Http_Request (lit ''POST'')
                    (api_url_text cfg @ lit ''/v4.0.0/libpod'' @ lit ''/secrets/create'')
                    [(lit ''name'', strip (name secret))] (Some (create_body enc secret)))]"
  using http_api_request_log [of cfg w log "lit ''POST''" "lit ''/secrets/create''"
      "[(lit ''name'', strip (name secret))]" "Some (create_body enc secret)"]
  by (auto simp add: create_secret_def stripped_name_eq Let_def split: prod.splits sum.splits)

lemma create_secret_http_unencodable:
  "\<not> bad_length (strip (name secret)) \<Longrightarrow> \<not> has_forbidden (strip (name secret)) \<Longrightarrow>
   USE_HTTP_API cfg \<Longrightarrow> b64encode_utf8 w (data secret) = None \<Longrightarrow>
   create_secret cfg w log secret = (Inl (HTTPException 500 (str_exn w UnicodeEncodeError) []), log)"
  by (auto simp add: create_secret_def stripped_name_eq Let_def)


lemma create_secret_valid_not_rejected:
  assumes "\<not> bad_length (strip (name secret))" "\<not> has_forbidden (strip (name secret))"
  shows "create_secret cfg w log secret \<noteq> (Inl (HTTPException 400 detail hs), log)"
proof (cases "USE_HTTP_API cfg")
  case False
  with assms show ?thesis
    using create_secret_cli_log [of secret cfg w log] by (metis snd_conv append_self_conv not_Cons_self2)
next
  case True
  show ?thesis
  proof (cases "b64encode_utf8 w (data secret)")
    case None
    with assms True show ?thesis
      using create_secret_http_unencodable [of secret cfg w log] by simp
  next
    case (Some enc)
    with assms True show ?thesis
      using create_secret_http_log [of secret cfg w enc log]
      by (metis snd_conv append_self_conv not_Cons_self2)
  qed
qed

text \<open>
  Claim C1, as amended. A create-secret request is rejected with status 400 before any
  backend call is made (the log of calls is unchanged) if and only if the name, with
  leading and trailing whitespace stripped, is empty, longer than 253 characters, or
  contains one of \<open>=\<close>, \<open>/\<close>, \<open>,\<close> and NUL. A name whose stripped form has 1 to 253
  characters (253 in particular) and no forbidden character is dispatched: the child
  process is started with it, or the POST request carries it once the payload is
  encoded.
\<close>

theorem create_secret_validation:
  "((\<exists>detail hs. create_secret cfg w log secret = (Inl (HTTPException 400 detail hs), log))
      \<longleftrightarrow> strip (name secret) = [] \<or> 253 < length (strip (name secret))
          \<or> set (strip (name secret)) \<inter> {61, 47, 44, 0} \<noteq> {})
   \<and> (strip (name secret) \<noteq> [] \<and> length (strip (name secret)) \<le> 253
        \<and> set (strip (name secret)) \<inter> {61, 47, 44, 0} = {} \<longrightarrow>
        (\<not> USE_HTTP_API cfg \<longrightarrow>
           snd (create_secret cfg w log secret) =
             log @ [Exec (Proc_Request (create_cmd cfg (strip (name secret)))
                            (Some (data secret)))])
        \<and> (\<forall>enc. USE_HTTP_API cfg \<and> b64encode_utf8 w (data secret) = Some enc \<longrightarrow>
             snd (create_secret cfg w log secret) =
               log @ [Http (Http_Request (lit ''POST'')
                              (api_url_text cfg @ lit ''/v4.0.0/libpod/secrets/create'')
                              [(lit ''name'', strip (name secret))]
                              (Some (create_body enc secret)))]))"
proof -
  let ?n = "strip (name secret)"
  have inv: "(bad_length ?n \<or> has_forbidden ?n) \<longleftrightarrow>
      (?n = [] \<or> 253 < length ?n \<or> set ?n \<inter> {61, 47, 44, 0} \<noteq> {})"
    by (auto simp add: bad_length_iff has_forbidden_iff)
  have "(\<exists>detail hs. create_secret cfg w log secret = (Inl (HTTPException 400 detail hs), log))
      \<longleftrightarrow> (bad_length ?n \<or> has_forbidden ?n)"
    using create_secret_rejected [of secret cfg w log]
      create_secret_valid_not_rejected [of secret cfg w log] by blast
  moreover have "lit ''/v4.0.0/libpod'' @ lit ''/secrets/create'' = lit ''/v4.0.0/libpod/secrets/create''"
    by (simp add: lit_def)
  ultimately show ?thesis
    using create_secret_cli_log [of secret cfg w log]
      create_secret_http_log [of secret cfg w _ log] inv
    by (auto simp add: bad_length_iff)
qed

lemma strip_replicate: "\<not> isspace c \<Longrightarrow> strip (replicate n c) = replicate n c"
  by (simp add: strip_def dropWhile_replicate)

lemma USE_HTTP_API_cli_config: "\<not> USE_HTTP_API cli_config"
  by (simp add: cli_config_def load_config_def getenv_def)

lemma USE_HTTP_API_http_config: "USE_HTTP_API http_config"
  by (simp add: http_config_def load_config_def getenv_def startswith_def lit_def Let_def)

text \<open>The theorem at a name of 253 letters \<open>a\<close>, without a remote host.\<close>

theorem create_secret_validation_witness:
  "snd (create_secret cli_config ok_world []
          (SecretCreate (replicate 253 97) (lit ''v'') None)) =
     [Exec (Proc_Request (create_cmd cli_config (replicate 253 97)) (Some (lit ''v'')))]"
  using create_secret_validation
    [of cli_config ok_world "[]" "SecretCreate (replicate 253 97) (lit ''v'') None"]
  by (simp add: strip_replicate isspace_def USE_HTTP_API_cli_config)

text \<open>
  Claim C1 as stated fails at the name of one space: it is not empty, not longer than
  253 characters and holds no forbidden character, and the request is rejected with 400
  before any backend call.
\<close>

theorem create_secret_blank_name_counterexample:
  "create_secret cli_config ok_world [] (SecretCreate [32] (lit ''v'') None) =
     (Inl (HTTPException 400 (lit ''Secret name must be between 1 and 253 characters'') []), [])
   \<and> [32::nat] \<noteq> [] \<and> length [32::nat] \<le> 253 \<and> set [32::nat] \<inter> {61, 47, 44, 0} = {}"
  by (simp add: create_secret_def stripped_name_def strip_def isspace_def bad_length_def)

section \<open>Bulk creation\<close>

lemma bulk_step_count:
  "length (success (bulk_step cfg w st secret)) + length (failed (bulk_step cfg w st secret)) =
     Suc (length (success st) + length (failed st))"
  by (simp add: bulk_step_def Let_def add_failed_def add_success_def
        split: option.splits prod.splits sum.splits proc_outcome.splits)

lemma bulk_loop_count:
  "length (success (bulk_loop cfg w st xs)) + length (failed (bulk_loop cfg w st xs)) =
     length (success st) + length (failed st) + length xs"
  by (induction xs arbitrary: st) (simp_all add: bulk_step_count)







text \<open>
  Claim C10. A bulk-create request of N entries returns a success list and a failed list
  whose lengths add up to N, in every world: also when a backend call raises or fails.
\<close>

theorem bulk_partition:
  "\<exists>succeeded fl log'.
     create_bulk_secrets cfg w log bulk =
       (Inr (Response 201
               (JObj [(lit ''success'', JArr succeeded), (lit ''failed'', JArr fl)])), log')
     \<and> length succeeded + length fl = length (bulk_secrets bulk)"
  using bulk_loop_count [of cfg w "\<lparr>success = [], failed = [], calls = log\<rparr>" "bulk_secrets bulk"]
  by (simp add: create_bulk_secrets_def bulk_results_def Let_def)

text \<open>The theorem at two entries in a world where every child process fails.\<close>

theorem bulk_partition_witness:
  "\<exists>succeeded fl log'.
     create_bulk_secrets cli_config down_world []
       (BulkSecretCreate [SecretCreate (lit ''a'') (lit ''v'') None,
                          SecretCreate (lit ''d'') (lit ''v'') None]) =
       (Inr (Response 201
               (JObj [(lit ''success'', JArr succeeded), (lit ''failed'', JArr fl)])), log')
     \<and> length succeeded + length fl = 2"
proof -
  have n: "length (bulk_secrets (BulkSecretCreate [SecretCreate (lit ''a'') (lit ''v'') None,
                           SecretCreate (lit ''d'') (lit ''v'') None])) = 2"
    by simp
  show ?thesis
    using bulk_partition
      [of cli_config down_world "[]"
        "BulkSecretCreate [SecretCreate (lit ''a'') (lit ''v'') None,
                           SecretCreate (lit ''d'') (lit ''v'') None]"]
    unfolding n .
qed

section \<open>Stripping of names\<close>












section \<open>Health check, deletion and the choice of backend\<close>

lemma run_podman_command_log:
  "snd (run_podman_command cfg w log args) = log @ [Exec (Proc_Request (podman_cmd cfg @ args) None)]"
  by (simp add: run_podman_command_def Let_def)

lemma http_api_request_raises:
  "fst (http_api_request cfg w log m ep ps js) = Inl e \<Longrightarrow> \<exists>code detail. e = HTTPException code detail []"
  by (auto simp add: http_api_request_def Let_def split: http_outcome.splits if_splits sum.splits)




lemma delete_except_structured: "\<exists>code detail hs. delete_except w e = HTTPException code detail hs"
  by (cases e) simp_all

text \<open>
  Claim C7. When the child process of a delete exits with a non-zero code (what podman
  does for an unknown secret), \<open>delete_secret\<close> raises an \<open>HTTPException\<close> with status
  400 and the captured error stream in its detail; when the API answers with an error
  status (404 for an unknown secret), the \<open>HTTPException\<close> has that status. In every
  world \<open>delete_secret\<close> returns or raises an \<open>HTTPException\<close>: no other exception leaves
  the handler.
\<close>

theorem delete_secret_failures:
  "(\<not> USE_HTTP_API cfg \<and>
      subprocess w log
        (Proc_Request (podman_cmd cfg @ [lit ''secret'', lit ''rm'', secret_id]) None) =
        Exited rc out err \<and> rc \<noteq> 0 \<longrightarrow>
    fst (delete_secret cfg w log secret_id) =
      Inl (HTTPException 400 (lit ''Failed to delete secret: '' @ err) []))
   \<and> (USE_HTTP_API cfg \<and>
      http_client w log
        (Http_Request (lit ''DELETE'')
           (api_url_text cfg @ lit ''/v4.0.0/libpod'' @ lit ''/secrets/'' @ secret_id) [] None) =
        Http_Status_Error code reason \<longrightarrow>
    fst (delete_secret cfg w log secret_id) =
      Inl (HTTPException code (lit ''Podman API error: '' @ reason) []))
   \<and> ((\<exists>r. fst (delete_secret cfg w log secret_id) = Inr r) \<or>
      (\<exists>status detail hs.
         fst (delete_secret cfg w log secret_id) = Inl (HTTPException status detail hs)))"
proof (intro conjI impI)
  assume "\<not> USE_HTTP_API cfg \<and>
      subprocess w log
        (Proc_Request (podman_cmd cfg @ [lit ''secret'', lit ''rm'', secret_id]) None) =
        Exited rc out err \<and> rc \<noteq> 0"
  then show "fst (delete_secret cfg w log secret_id) =
      Inl (HTTPException 400 (lit ''Failed to delete secret: '' @ err) [])"
    by (simp add: delete_secret_def subprocess_run_def Let_def)
next
  assume "USE_HTTP_API cfg \<and>
      http_client w log
        (Http_Request (lit ''DELETE'')
           (api_url_text cfg @ lit ''/v4.0.0/libpod'' @ lit ''/secrets/'' @ secret_id) [] None) =
        Http_Status_Error code reason"
  then show "fst (delete_secret cfg w log secret_id) =
      Inl (HTTPException code (lit ''Podman API error: '' @ reason) [])"
    by (simp add: delete_secret_def http_api_request_def Let_def)
next
  show "(\<exists>r. fst (delete_secret cfg w log secret_id) = Inr r) \<or>
      (\<exists>status detail hs.
         fst (delete_secret cfg w log secret_id) = Inl (HTTPException status detail hs))"
    using delete_except_structured [of w]
    by (auto simp add: delete_secret_def Let_def split: prod.splits sum.splits)
qed

text \<open>The theorem in the world where the secret does not exist, for both backends.\<close>

theorem delete_secret_failures_witness:
  "fst (delete_secret cli_config down_world [] (lit ''nope'')) =
      Inl (HTTPException 400 (lit ''Failed to delete secret: '' @ lit ''no such secret'') [])
   \<and> fst (delete_secret http_config down_world [] (lit ''nope'')) =
      Inl (HTTPException 404 (lit ''Podman API error: '' @ lit ''no such secret'') [])"
proof -
  have cli: "\<not> USE_HTTP_API cli_config \<and>
      subprocess down_world []
        (Proc_Request (podman_cmd cli_config @ [lit ''secret'', lit ''rm'', lit ''nope'']) None) =
        Exited 125 [] (lit ''no such secret'') \<and> (125::int) \<noteq> 0"
    by (simp add: USE_HTTP_API_cli_config down_world_def)
  have http: "USE_HTTP_API http_config \<and>
      http_client down_world []
        (Http_Request (lit ''DELETE'')
           (api_url_text http_config @ lit ''/v4.0.0/libpod'' @ lit ''/secrets/'' @ lit ''nope'')
           [] None) =
        Http_Status_Error 404 (lit ''no such secret'')"
    by (simp add: USE_HTTP_API_http_config down_world_def)
  show ?thesis
    using delete_secret_failures
        [where cfg = cli_config and w = down_world and log = "[]" and secret_id = "lit ''nope''"
           and rc = 125 and out = "[]" and err = "lit ''no such secret''"] cli
      delete_secret_failures
        [where cfg = http_config and w = down_world and log = "[]" and secret_id = "lit ''nope''"
           and code = 404 and reason = "lit ''no such secret''"] http
    by blast
qed

lemma startswith_prefix: "startswith s p \<longleftrightarrow> prefix p s"
  by (auto simp add: startswith_def prefix_def) (metis append_take_drop_id)

lemma USE_HTTP_API_load_config:
  "USE_HTTP_API (load_config environ) \<longleftrightarrow>
     (\<exists>host. environ (lit ''PODMAN_HOST'') = Some host \<and> host \<noteq> [] \<and> prefix (lit ''tcp://'') host)"
  by (auto simp add: load_config_def getenv_def Let_def startswith_prefix split: option.splits)

lemma on_selected_backend_iff:
  "on_selected_backend cfg log log' \<longleftrightarrow>
     (\<exists>cs. log' = log @ cs \<and> (\<forall>c \<in> set cs. is_http c = USE_HTTP_API cfg))"
proof
  assume "on_selected_backend cfg log log'"
  then have "log' = log @ drop (length log) log'"
    and "\<forall>c \<in> set (drop (length log) log'). is_http c = USE_HTTP_API cfg"
    by (simp_all add: on_selected_backend_def list_all_iff)
      (metis append_take_drop_id)
  then show "\<exists>cs. log' = log @ cs \<and> (\<forall>c \<in> set cs. is_http c = USE_HTTP_API cfg)"
    by blast
next
  assume "\<exists>cs. log' = log @ cs \<and> (\<forall>c \<in> set cs. is_http c = USE_HTTP_API cfg)"
  then show "on_selected_backend cfg log log'"
    by (auto simp add: on_selected_backend_def list_all_iff)
qed

lemma on_selected_backend_refl: "on_selected_backend cfg log log"
  by (simp add: on_selected_backend_iff)

lemma on_selected_backend_one:
  "is_http c = USE_HTTP_API cfg \<Longrightarrow> on_selected_backend cfg log (log @ [c])"
  by (simp add: on_selected_backend_iff)

lemma on_selected_backend_trans:
  "on_selected_backend cfg log log' \<Longrightarrow> on_selected_backend cfg log' log'' \<Longrightarrow>
   on_selected_backend cfg log log''"
  by (auto simp add: on_selected_backend_iff)

lemma list_secrets_backend: "on_selected_backend cfg log (snd (list_secrets cfg w log))"
proof (cases "USE_HTTP_API cfg")
  case True
  then show ?thesis
    using http_api_request_log [of cfg w log "lit ''GET''" "lit ''/secrets/json''" "[]" None]
    by (auto simp add: list_secrets_def on_selected_backend_iff split: prod.splits sum.splits)
next
  case False
  then show ?thesis
    using run_podman_command_log
        [of cfg w log "[lit ''secret'', lit ''ls'', lit ''--format'', lit ''json'']"]
    by (auto simp add: list_secrets_def on_selected_backend_iff split: prod.splits sum.splits)
qed

lemma inspect_secret_backend:
  "on_selected_backend cfg log (snd (inspect_secret cfg w log secret_id))"
proof (cases "USE_HTTP_API cfg")
  case True
  then show ?thesis
    using http_api_request_log
        [of cfg w log "lit ''GET''" "lit ''/secrets/'' @ secret_id @ lit ''/json''" "[]" None]
    by (auto simp add: inspect_secret_def on_selected_backend_iff split: prod.splits sum.splits)
next
  case False
  then show ?thesis
    using run_podman_command_log [of cfg w log "[lit ''secret'', lit ''inspect'', secret_id]"]
    by (auto simp add: inspect_secret_def on_selected_backend_iff split: prod.splits sum.splits)
qed

lemma delete_secret_backend:
  "on_selected_backend cfg log (snd (delete_secret cfg w log secret_id))"
proof (cases "USE_HTTP_API cfg")
  case True
  then show ?thesis
    using http_api_request_log
        [of cfg w log "lit ''DELETE''" "lit ''/secrets/'' @ secret_id" "[]" None]
    by (auto simp add: delete_secret_def on_selected_backend_iff split: prod.splits sum.splits)
next
  case False
  then show ?thesis
    by (auto simp add: delete_secret_def on_selected_backend_iff Let_def
          split: prod.splits sum.splits)
qed

lemma health_check_backend: "on_selected_backend cfg log (snd (health_check cfg w log))"
proof (cases "USE_HTTP_API cfg")
  case True
  then show ?thesis
    using http_api_request_log [of cfg w log "lit ''GET''" "lit ''/version''" "[]" None]
    by (auto simp add: health_check_def on_selected_backend_iff split: prod.splits sum.splits)
next
  case False
  then show ?thesis
    by (auto simp add: health_check_def on_selected_backend_iff Let_def
          split: prod.splits sum.splits)
qed

lemma create_secret_backend:
  "on_selected_backend cfg log (snd (create_secret cfg w log secret))"
proof (cases "bad_length (strip (name secret)) \<or> has_forbidden (strip (name secret))")
  case True
  then show ?thesis
    using create_secret_rejected [of secret cfg w log]
    by (auto simp add: on_selected_backend_refl)
next
  case valid: False
  show ?thesis
  proof (cases "USE_HTTP_API cfg")
    case False
    with valid show ?thesis
      using create_secret_cli_log [of secret cfg w log] by (simp add: on_selected_backend_one)
  next
    case True
    show ?thesis
    proof (cases "b64encode_utf8 w (data secret)")
      case None
      with valid True show ?thesis
        using create_secret_http_unencodable [of secret cfg w log]
        by (simp add: on_selected_backend_refl)
    next
      case (Some enc)
      with valid True show ?thesis
        using create_secret_http_log [of secret cfg w enc log]
        by (simp add: on_selected_backend_one)
    qed
  qed
qed

lemma bulk_step_backend: "on_selected_backend cfg (calls st) (calls (bulk_step cfg w st secret))"
  by (auto simp add: bulk_step_def stripped_name_eq Let_def add_failed_def add_success_def
        http_api_request_def on_selected_backend_iff
        split: option.splits prod.splits sum.splits proc_outcome.splits)

lemma bulk_loop_backend: "on_selected_backend cfg (calls st) (calls (bulk_loop cfg w st xs))"
proof (induction xs arbitrary: st)
  case Nil
  show ?case by (simp add: on_selected_backend_refl)
next
  case (Cons x xs)
  show ?case
    using bulk_step_backend [of cfg st w x] Cons.IH [of "bulk_step cfg w st x"]
    by (auto intro: on_selected_backend_trans)
qed

lemma create_bulk_secrets_backend:
  "on_selected_backend cfg log (snd (create_bulk_secrets cfg w log bulk))"
  using bulk_loop_backend [of cfg "\<lparr>success = [], failed = [], calls = log\<rparr>" w "bulk_secrets bulk"]
  by (simp add: create_bulk_secrets_def bulk_results_def Let_def)

text \<open>
  Claim C8. The configuration is computed once from the environment, and the handlers
  receive it, not the environment. The remote API is selected if and only if
  \<open>PODMAN_HOST\<close> is set, not empty and starts with \<open>tcp://\<close>; every backend call of
  every secret operation and of the health check goes to the backend selected.
\<close>

theorem backend_selected_at_start:
  "(USE_HTTP_API (load_config environ) \<longleftrightarrow>
      (\<exists>host. environ (lit ''PODMAN_HOST'') = Some host \<and> host \<noteq> []
              \<and> prefix (lit ''tcp://'') host))
   \<and> on_selected_backend (load_config environ) log
        (snd (list_secrets (load_config environ) w log))
   \<and> on_selected_backend (load_config environ) log
        (snd (create_secret (load_config environ) w log secret))
   \<and> on_selected_backend (load_config environ) log
        (snd (create_bulk_secrets (load_config environ) w log bulk))
   \<and> on_selected_backend (load_config environ) log
        (snd (inspect_secret (load_config environ) w log secret_id))
   \<and> on_selected_backend (load_config environ) log
        (snd (delete_secret (load_config environ) w log secret_id))
   \<and> on_selected_backend (load_config environ) log
        (snd (health_check (load_config environ) w log))"
  by (intro conjI USE_HTTP_API_load_config list_secrets_backend create_secret_backend
        create_bulk_secrets_backend inspect_secret_backend delete_secret_backend
        health_check_backend)

text \<open>The theorem at \<open>PODMAN_HOST=tcp://h:1\<close>.\<close>

theorem backend_selected_at_start_witness:
  "USE_HTTP_API (load_config [lit ''PODMAN_HOST'' \<mapsto> lit ''tcp://h:1''])
   \<and> on_selected_backend (load_config [lit ''PODMAN_HOST'' \<mapsto> lit ''tcp://h:1'']) []
        (snd (delete_secret (load_config [lit ''PODMAN_HOST'' \<mapsto> lit ''tcp://h:1''])
                ok_world [] (lit ''abc'')))"
proof -
  have "prefix (lit ''tcp://'') (lit ''tcp://h:1'')"
    by (simp add: lit_def)
  then show ?thesis
    using backend_selected_at_start
      [where environ = "[lit ''PODMAN_HOST'' \<mapsto> lit ''tcp://h:1'']" and w = ok_world
         and log = "[]" and secret_id = "lit ''abc''"]
    by simp
qed

section \<open>Authentication\<close>

lemma find_commit_password:
  "find (\<lambda>row. user_id row = uid) (commit_password a u h users) =
     map_option (\<lambda>row. if user_id row = user_id u
                          then User (user_id row) (username row) h (created_at row) (utcnow a)
                          else row)
       (find (\<lambda>row. user_id row = uid) users)"
  by (induction users) (auto simp add: commit_password_def)

lemma stored_hash_commit_password:
  "stored_hash (commit_password a u h users) uid =
     (if uid = user_id u then map_option (\<lambda>old. h) (stored_hash users uid)
      else stored_hash users uid)"
proof (cases "find (\<lambda>row. user_id row = uid) users")
  case None
  then show ?thesis
    by (auto simp add: stored_hash_def find_commit_password)
next
  case (Some row)
  then have "user_id row = uid"
    by (auto simp add: find_Some_iff)
  with Some show ?thesis
    by (cases "uid = user_id u") (simp_all add: stored_hash_def find_commit_password)
qed

text \<open>
  Claim C5. \<open>current_user\<close> is the row the table holds under its primary key. If the
  current password supplied does not verify against that stored hash, \<open>change_password\<close>
  raises an \<open>HTTPException\<close> with status 400 and the table is unchanged. If it
  verifies, the handler returns with status 200, the stored hash of the user is the hash
  of the new password, and the stored hash of every other user is unchanged.
\<close>

theorem change_password_checks_current:
  assumes "stored_hash users (user_id current_user) = Some (hashed_password current_user)"
  shows "(\<not> verify_password a (current_password password_change) (hashed_password current_user)
            \<longrightarrow>
          change_password a password_change current_user users =
            (Inl (HTTPException 400 (lit ''Current password is incorrect'') []), users))
       \<and> (verify_password a (current_password password_change) (hashed_password current_user)
            \<longrightarrow>
          fst (change_password a password_change current_user users) =
            Inr (Response 200
                   (JObj [(lit ''message'', JStr (lit ''Password changed successfully''))]))
          \<and> stored_hash (snd (change_password a password_change current_user users))
                (user_id current_user) =
              Some (get_password_hash a (new_password password_change))
          \<and> (\<forall>uid. uid \<noteq> user_id current_user \<longrightarrow>
                stored_hash (snd (change_password a password_change current_user users)) uid =
                  stored_hash users uid))"
  using assms by (simp add: change_password_def stored_hash_commit_password)

text \<open>The theorem for the user \<open>admin\<close>, with a wrong and with the right password.\<close>

theorem change_password_checks_current_witness:
  "change_password sample_auth (PasswordChange (lit ''wrong'') (lit ''new''))
       (User 1 (lit ''admin'') (lit ''h:admin'') 0 0) sample_users =
     (Inl (HTTPException 400 (lit ''Current password is incorrect'') []), sample_users)
   \<and> stored_hash
        (snd (change_password sample_auth (PasswordChange (lit ''admin'') (lit ''new''))
                (User 1 (lit ''admin'') (lit ''h:admin'') 0 0) sample_users)) 1 =
       Some (lit ''h:new'')"
proof -
  let ?u = "User 1 (lit ''admin'') (lit ''h:admin'') 0 0"
  have stored: "stored_hash sample_users (user_id ?u) = Some (hashed_password ?u)"
    by (simp add: stored_hash_def sample_users_def)
  have wrong: "\<not> verify_password sample_auth (current_password (PasswordChange (lit ''wrong'') (lit ''new'')))
      (hashed_password ?u)"
    by (simp add: sample_auth_def lit_def)
  have right: "verify_password sample_auth (current_password (PasswordChange (lit ''admin'') (lit ''new'')))
      (hashed_password ?u)"
    by (simp add: sample_auth_def lit_def)
  have h: "get_password_hash sample_auth (new_password (PasswordChange (lit ''admin'') (lit ''new''))) =
      lit ''h:new''"
    by (simp add: sample_auth_def lit_def)
  show ?thesis
    using change_password_checks_current
        [where a = sample_auth and users = sample_users and current_user = ?u
           and password_change = "PasswordChange (lit ''wrong'') (lit ''new'')", OF stored] wrong
      change_password_checks_current
        [where a = sample_auth and users = sample_users and current_user = ?u
           and password_change = "PasswordChange (lit ''admin'') (lit ''new'')", OF stored] right
    unfolding h by simp
qed

text \<open>
  Claim C6. A login with an unknown username and a login with a wrong password raise the
  same \<open>HTTPException\<close>: status 401, one detail, one header, no token. A login with
  the right password returns, with status 200, the access token made for the username
  and the token type \<open>bearer\<close>.
\<close>

theorem login_uniform_failure:
  "(find (\<lambda>u. username u = login_username user_login) users = None \<longrightarrow>
      login a users user_login =
        Inl (HTTPException 401 (lit ''Incorrect username or password'')
               [(lit ''WWW-Authenticate'', lit ''Bearer'')]))
   \<and> (\<forall>user. find (\<lambda>u. username u = login_username user_login) users = Some user \<and>
        \<not> verify_password a (login_password user_login) (hashed_password user) \<longrightarrow>
      login a users user_login =
        Inl (HTTPException 401 (lit ''Incorrect username or password'')
               [(lit ''WWW-Authenticate'', lit ''Bearer'')]))
   \<and> (\<forall>user. find (\<lambda>u. username u = login_username user_login) users = Some user \<and>
        verify_password a (login_password user_login) (hashed_password user) \<longrightarrow>
      login a users user_login =
        Inr (Response 200
               (JObj [(lit ''access_token'',
                       JStr (create_access_token a [(lit ''sub'', username user)]
                               (ACCESS_TOKEN_EXPIRE_MINUTES a))),
                      (lit ''token_type'', JStr (lit ''bearer''))])))"
  by (simp add: login_def authenticate_user_def unauthorized_def)

text \<open>The theorem for an unknown user, a wrong password and the right password.\<close>

theorem login_uniform_failure_witness:
  "login sample_auth sample_users (UserLogin (lit ''eve'') (lit ''pw'')) =
     Inl (HTTPException 401 (lit ''Incorrect username or password'')
            [(lit ''WWW-Authenticate'', lit ''Bearer'')])
   \<and> login sample_auth sample_users (UserLogin (lit ''bob'') (lit ''guess'')) =
     Inl (HTTPException 401 (lit ''Incorrect username or password'')
            [(lit ''WWW-Authenticate'', lit ''Bearer'')])
   \<and> login sample_auth sample_users (UserLogin (lit ''bob'') (lit ''pw'')) =
     Inr (Response 200
            (JObj [(lit ''access_token'', JStr (lit ''tokenbob'')),
                   (lit ''token_type'', JStr (lit ''bearer''))]))"
proof -
  let ?bob = "User 2 (lit ''bob'') (lit ''h:pw'') 0 0"
  have eve: "find (\<lambda>u. username u = login_username (UserLogin (lit ''eve'') (lit ''pw''))) sample_users = None"
    by (simp add: sample_users_def)
  have bob1: "find (\<lambda>u. username u = login_username (UserLogin (lit ''bob'') (lit ''guess''))) sample_users = Some ?bob
      \<and> \<not> verify_password sample_auth (login_password (UserLogin (lit ''bob'') (lit ''guess''))) (hashed_password ?bob)"
    by (simp add: sample_users_def sample_auth_def lit_def)
  have bob2: "find (\<lambda>u. username u = login_username (UserLogin (lit ''bob'') (lit ''pw''))) sample_users = Some ?bob
      \<and> verify_password sample_auth (login_password (UserLogin (lit ''bob'') (lit ''pw''))) (hashed_password ?bob)"
    by (simp add: sample_users_def sample_auth_def lit_def)
  have tok: "create_access_token sample_auth [(lit ''sub'', username ?bob)]
      (ACCESS_TOKEN_EXPIRE_MINUTES sample_auth) = lit ''tokenbob''"
    by (simp add: sample_auth_def lit_def)
  show ?thesis
    using login_uniform_failure
        [where a = sample_auth and users = sample_users
           and user_login = "UserLogin (lit ''eve'') (lit ''pw'')"] eve
      login_uniform_failure
        [where a = sample_auth and users = sample_users
           and user_login = "UserLogin (lit ''bob'') (lit ''guess'')"] bob1
      login_uniform_failure
        [where a = sample_auth and users = sample_users
           and user_login = "UserLogin (lit ''bob'') (lit ''pw'')"] bob2
    unfolding tok [symmetric] by blast
qed

section \<open>Response normalization\<close>

lemma py_get_present:
  "py_get j k JNull = Inr v \<Longrightarrow> v \<noteq> JNull \<Longrightarrow> py_get j k d = Inr v"
  by (cases j) (auto split: option.splits)

lemma py_get_nested:
  assumes "and_then (py_get j k JNull) f = Inr (JStr x)" "f JNull = Inl AttributeError"
  shows "\<exists>v. py_get j k d = Inr v \<and> f v = Inr (JStr x)"
proof -
  from assms obtain v where v: "py_get j k JNull = Inr v" "f v = Inr (JStr x)"
    by (auto simp add: and_then_def split: sum.splits)
  with assms(2) have "v \<noteq> JNull" by auto
  with v show ?thesis
    using py_get_present [of j k v d] by blast
qed

lemma flat_fields_remote:
  assumes "remote_shape j s"
  shows "flat_fields j = Inr (canonical_fields s)"
proof -
  from assms have ident: "py_get j (lit ''ID'') (JStr []) = Inr (JStr (info_id s))"
    and created: "py_get j (lit ''CreatedAt'') (JStr []) = Inr (JStr (info_created s))"
    and updated: "py_get j (lit ''UpdatedAt'') (JStr []) = Inr (JStr (info_updated s))"
    by (auto simp add: remote_shape_def intro: py_get_present)
  from assms obtain spec where spec: "py_get j (lit ''Spec'') (JObj []) = Inr spec"
    and nm: "py_get spec (lit ''Name'') JNull = Inr (JStr (info_name s))"
    using py_get_nested [of j "lit ''Spec''" "\<lambda>spec. py_get spec (lit ''Name'') JNull"
        "info_name s" "JObj []"]
    by (auto simp add: remote_shape_def)
  from assms obtain spec' where spec': "py_get j (lit ''Spec'') (JObj []) = Inr spec'"
    and drv: "and_then (py_get spec' (lit ''Driver'') JNull)
                (\<lambda>drv. py_get drv (lit ''Name'') JNull) = Inr (JStr (info_driver s))"
    using py_get_nested [of j "lit ''Spec''"
        "\<lambda>spec. and_then (py_get spec (lit ''Driver'') JNull)
                   (\<lambda>drv. py_get drv (lit ''Name'') JNull)"
        "info_driver s" "JObj []"]
    by (auto simp add: remote_shape_def and_then_def)
  from spec spec' have same: "spec' = spec" by simp
  from drv obtain d where d: "py_get spec (lit ''Driver'') (JObj []) = Inr d"
    and dn: "py_get d (lit ''Name'') JNull = Inr (JStr (info_driver s))"
    using py_get_nested [of spec' "lit ''Driver''" "\<lambda>drv. py_get drv (lit ''Name'') JNull"
        "info_driver s" "JObj []"]
    by (auto simp add: same)
  from nm have nm': "py_get spec (lit ''Name'') (JStr []) = Inr (JStr (info_name s))"
    by (auto intro: py_get_present)
  from dn have dn': "py_get d (lit ''Name'') (JStr (lit ''file'')) = Inr (JStr (info_driver s))"
    by (auto intro: py_get_present)
  show ?thesis
    by (simp add: flat_fields_def and_then_def ident created updated spec nm' d dn'
          canonical_fields_def)
qed

lemma transform_all_remote:
  "list_all2 remote_shape rs infos \<Longrightarrow> transform_all rs = Inr (map canonical_summary infos)"
  by (induction rs infos rule: list_all2_induct)
    (simp_all add: flat_fields_remote and_then_def canonical_summary_def)

lemma remote_shape_truthy: "remote_shape j s \<Longrightarrow> truthy j"
  by (cases j) (auto simp add: remote_shape_def)

lemma list_secrets_remote:
  assumes "USE_HTTP_API cfg"
    and "fst (http_api_request cfg w log (lit ''GET'') (lit ''/secrets/json'') [] None) =
           Inr (JArr rs)"
    and "list_all2 remote_shape rs infos"
  shows "fst (list_secrets cfg w log) = Inr (Response 200 (JArr (map canonical_summary infos)))"
proof (cases rs)
  case Nil
  with assms show ?thesis
    by (cases "http_api_request cfg w log (lit ''GET'') (lit ''/secrets/json'') [] None")
      (simp add: list_secrets_def)
next
  case (Cons r rest)
  with assms transform_all_remote [of rs infos] show ?thesis
    by (cases "http_api_request cfg w log (lit ''GET'') (lit ''/secrets/json'') [] None")
      (simp add: list_secrets_def and_then_def)
qed

lemma list_secrets_local:
  assumes "\<not> USE_HTTP_API cfg"
    and "fst (run_podman_command cfg w log
                [lit ''secret'', lit ''ls'', lit ''--format'', lit ''json'']) = Inr (JArr xs)"
  shows "fst (list_secrets cfg w log) = Inr (Response 200 (JArr xs))"
  using assms
  by (cases "run_podman_command cfg w log
                [lit ''secret'', lit ''ls'', lit ''--format'', lit ''json'']")
    (auto simp add: list_secrets_def)

lemma inspect_secret_remote:
  assumes "USE_HTTP_API cfg"
    and "fst (http_api_request cfg w log (lit ''GET'')
                (lit ''/secrets/'' @ secret_id @ lit ''/json'') [] None) = Inr r"
    and "remote_shape r info"
    and "py_get r (lit ''Spec'') (JObj []) = Inr spec"
  shows "fst (inspect_secret cfg w log secret_id) = Inr (Response 200 (canonical_detail info spec))"
  using assms flat_fields_remote [of r info] remote_shape_truthy [of r info]
  by (cases "http_api_request cfg w log (lit ''GET'')
                (lit ''/secrets/'' @ secret_id @ lit ''/json'') [] None")
    (simp add: inspect_secret_def and_then_def canonical_detail_def)

lemma inspect_secret_local:
  assumes "\<not> USE_HTTP_API cfg"
    and "fst (run_podman_command cfg w log [lit ''secret'', lit ''inspect'', secret_id]) =
           Inr (JArr (first # rest))"
  shows "fst (inspect_secret cfg w log secret_id) = Inr (Response 200 first)"
  using assms
  by (cases "run_podman_command cfg w log [lit ''secret'', lit ''inspect'', secret_id]")
    (simp add: inspect_secret_def and_then_def)

text \<open>
  Claim C3. Let the remote API report secrets in its nested schema and the podman
  command print the same secrets in the flat schema. Then \<open>list_secrets\<close> returns the
  same list of \<open>{ID, Name, Driver, CreatedAt, UpdatedAt}\<close> on both backends, and
  \<open>inspect_secret\<close> returns the same object of these fields plus \<open>Spec\<close> on both: the
  remote handler's flattening of \<open>Spec.Name\<close> and \<open>Spec.Driver.Name\<close> yields exactly
  the flat shape.
\<close>

theorem backends_agree_on_shape:
  "(USE_HTTP_API remote_cfg \<and> \<not> USE_HTTP_API local_cfg \<and>
      fst (http_api_request remote_cfg w log (lit ''GET'') (lit ''/secrets/json'') [] None) =
        Inr (JArr raw) \<and>
      list_all2 remote_shape raw infos \<and>
      fst (run_podman_command local_cfg w' log'
             [lit ''secret'', lit ''ls'', lit ''--format'', lit ''json'']) =
        Inr (JArr (map canonical_summary infos)) \<longrightarrow>
    fst (list_secrets remote_cfg w log) =
      Inr (Response 200 (JArr (map canonical_summary infos))) \<and>
    fst (list_secrets local_cfg w' log') = fst (list_secrets remote_cfg w log))
   \<and> (USE_HTTP_API remote_cfg \<and> \<not> USE_HTTP_API local_cfg \<and>
      fst (http_api_request remote_cfg w log (lit ''GET'')
             (lit ''/secrets/'' @ secret_id @ lit ''/json'') [] None) = Inr r \<and>
      remote_shape r info \<and> py_get r (lit ''Spec'') (JObj []) = Inr spec \<and>
      fst (run_podman_command local_cfg w' log' [lit ''secret'', lit ''inspect'', secret_id]) =
        Inr (JArr (canonical_detail info spec # rest)) \<longrightarrow>
    fst (inspect_secret remote_cfg w log secret_id) =
      Inr (Response 200 (canonical_detail info spec)) \<and>
    fst (inspect_secret local_cfg w' log' secret_id) =
      fst (inspect_secret remote_cfg w log secret_id))"
  using list_secrets_remote [of remote_cfg w log raw infos]
    list_secrets_local [of local_cfg w' log' "map canonical_summary infos"]
    inspect_secret_remote [of remote_cfg w log secret_id r info spec]
    inspect_secret_local [of local_cfg w' log' secret_id "canonical_detail info spec" rest]
  by simp

lemma http_api_request_answering:
  "fst (http_api_request cfg (answering j) log m ep ps js) = Inr j"
  by (simp add: http_api_request_def answering_def Let_def)

lemma run_podman_command_answering:
  "fst (run_podman_command cfg (answering j) log args) = Inr j"
  by (simp add: run_podman_command_def subprocess_run_def answering_def Let_def strip_def
        isspace_def lit_def)

lemma remote_shape_sample: "remote_shape sample_remote sample_info"
  by (simp add: remote_shape_def sample_remote_def sample_spec_def sample_info_def and_then_def)

lemma py_get_sample_spec: "py_get sample_remote (lit ''Spec'') (JObj []) = Inr sample_spec"
  by (simp add: sample_remote_def)

text \<open>The theorem at the sample secret, for list and for inspect.\<close>

theorem backends_agree_on_shape_witness:
  "fst (list_secrets http_config (answering (JArr [sample_remote])) []) =
     Inr (Response 200 (JArr [canonical_summary sample_info]))
   \<and> fst (list_secrets cli_config (answering (JArr [canonical_summary sample_info])) []) =
       fst (list_secrets http_config (answering (JArr [sample_remote])) [])
   \<and> fst (inspect_secret http_config (answering sample_remote) [] (lit ''1f'')) =
       Inr (Response 200 (canonical_detail sample_info sample_spec))
   \<and> fst (inspect_secret cli_config
             (answering (JArr [canonical_detail sample_info sample_spec])) [] (lit ''1f'')) =
       fst (inspect_secret http_config (answering sample_remote) [] (lit ''1f''))"
proof -
  have shapes: "list_all2 remote_shape [sample_remote] [sample_info]"
    by (simp add: remote_shape_sample)
  have flat: "JArr (map canonical_summary [sample_info]) = JArr [canonical_summary sample_info]"
    by simp
  show ?thesis
    using backends_agree_on_shape
        [where remote_cfg = http_config and local_cfg = cli_config
           and w = "answering (JArr [sample_remote])"
           and w' = "answering (JArr [canonical_summary sample_info])"
           and log = "[]" and log' = "[]" and raw = "[sample_remote]" and infos = "[sample_info]"]
      backends_agree_on_shape
        [where remote_cfg = http_config and local_cfg = cli_config
           and w = "answering sample_remote"
           and w' = "answering (JArr [canonical_detail sample_info sample_spec])"
           and log = "[]" and log' = "[]" and secret_id = "lit ''1f''" and r = sample_remote
           and info = sample_info and spec = sample_spec and rest = "[]"]
      shapes remote_shape_sample py_get_sample_spec
    by (simp add: http_api_request_answering run_podman_command_answering
          USE_HTTP_API_cli_config USE_HTTP_API_http_config)
qed

end
